theory Spec2Isabelle
  imports Main
begin

section \<open>The rate limiter of server.js\<close>

text \<open>
  \<^verbatim>\<open>requestCounts\<close> is a JavaScript \<^verbatim>\<open>Map\<close> from the client address to an array of
  the times (milliseconds, as \<^verbatim>\<open>Date.now()\<close> gives them) of its admitted requests.
  The map is a partial function; the arrays are lists of integers. The source reads the
  clock inside \<^verbatim>\<open>checkRateLimit\<close>; here the reading is the argument \<open>now\<close> and the
  map is passed in and returned.
\<close>

type_synonym client = string
type_synonym requestCounts = "client \<rightharpoonup> int list"

definition RATE_LIMIT :: nat where
  "RATE_LIMIT = 100"

definition RATE_WINDOW :: int where
  "RATE_WINDOW = 60000"

text \<open>
  \<^verbatim>\<open>
  function checkRateLimit(ip) {
      const now = Date.now();
      const userRequests = requestCounts.get(ip) || [];
      const recentRequests = userRequests.filter(time => now - time < RATE_WINDOW);
      if (recentRequests.length >= RATE_LIMIT) {
          return false;
      }
      recentRequests.push(now);
      requestCounts.set(ip, recentRequests);
      return true;
  }
  \<close>
  \<^verbatim>\<open>filter\<close> builds a new array and leaves the stored one as it is, so the early
  \<^verbatim>\<open>return false\<close> hands back the map it was given.
\<close>

definition checkRateLimit :: "requestCounts \<Rightarrow> client \<Rightarrow> int \<Rightarrow> bool \<times> requestCounts" where
  "checkRateLimit requestCounts ip now =
     (let userRequests = (case requestCounts ip of None \<Rightarrow> [] | Some ts \<Rightarrow> ts);
          recentRequests = filter (\<lambda>time. now - time < RATE_WINDOW) userRequests
      in if length recentRequests \<ge> RATE_LIMIT then (False, requestCounts)
         else (True, requestCounts(ip \<mapsto> recentRequests @ [now])))"

text \<open>A run of the server is a sequence of calls, each with its client and its clock reading.\<close>

fun run :: "requestCounts \<Rightarrow> (client \<times> int) list \<Rightarrow> requestCounts" where
  "run m [] = m"
| "run m ((ip, now) # cs) = run (snd (checkRateLimit m ip now)) cs"

text \<open>The timestamps stored for a client, the empty sequence if there are none.\<close>

definition stored :: "requestCounts \<Rightarrow> client \<Rightarrow> int list" where
  "stored m ip = (case m ip of None \<Rightarrow> [] | Some ts \<Rightarrow> ts)"

text \<open>
  The admit operation as the specification words it: entries older than \<open>now - WINDOW\<close>,
  that is with a time before \<open>now - WINDOW\<close>, are discarded.
\<close>

definition admit_spec :: "requestCounts \<Rightarrow> client \<Rightarrow> int \<Rightarrow> bool \<times> requestCounts" where
  "admit_spec m ip now =
     (let remaining = filter (\<lambda>t. \<not> t < now - 60000) (stored m ip)
      in if length remaining \<ge> 100 then (False, m)
         else (True, m(ip \<mapsto> remaining @ [now])))"

text \<open>
  The same with the boundary the code has: an entry is discarded as soon as its age
  reaches the window, \<open>t \<le> now - WINDOW\<close>.
\<close>

definition admit_amended :: "requestCounts \<Rightarrow> client \<Rightarrow> int \<Rightarrow> bool \<times> requestCounts" where
  "admit_amended m ip now =
     (let remaining = filter (\<lambda>t. \<not> t \<le> now - 60000) (stored m ip)
      in if length remaining \<ge> 100 then (False, m)
         else (True, m(ip \<mapsto> remaining @ [now])))"


section \<open>JavaScript values in the request handlers\<close>

text \<open>
  A string is the list of its code units, each a \<^typ>\<open>char\<close> (code units below 256).
  A property that may be missing (\<^verbatim>\<open>req.query.limit\<close>, \<^verbatim>\<open>req.params.id\<close>) is a
  \<^typ>\<open>string option\<close>, \<open>None\<close> standing for \<^verbatim>\<open>undefined\<close>; the query parameters are
  taken to be plain strings.

  The Numbers of this program are whole or not finite: \<^verbatim>\<open>NaN\<close>, a double whose value is an
  integer (\<open>Fin\<close>; \<^verbatim>\<open>-0\<close> is \<open>Fin 0\<close>, the two being falsy alike), and the two infinities.
\<close>

datatype number = NaN | Fin int | PosInfinity | NegInfinity

datatype jsval = Undefined | Str string | Num number | Bool bool

datatype json =
    JNull
  | JBool bool
  | JNum int
  | JStr string
  | JArr "json list"
  | JObj "(string \<times> json) list"

text \<open>\<^verbatim>\<open>ToString\<close> of a value that is \<^verbatim>\<open>undefined\<close> or a string.\<close>

definition toString :: "string option \<Rightarrow> string" where
  "toString v = (case v of None \<Rightarrow> ''undefined'' | Some s \<Rightarrow> s)"

text \<open>The white space that \<^verbatim>\<open>parseInt\<close> skips: TAB, LF, VT, FF, CR, space, NBSP.\<close>

definition isStrWhiteSpaceChar :: "char \<Rightarrow> bool" where
  "isStrWhiteSpaceChar c \<longleftrightarrow> of_char c \<in> set [9, 10, 11, 12, 13, 32, 160 :: nat]"

text \<open>The value of a digit, letters counting from ten in either case.\<close>

definition digitValue :: "char \<Rightarrow> nat option" where
  "digitValue c =
     (let n = of_char c :: nat
      in if 48 \<le> n \<and> n \<le> 57 then Some (n - 48)
         else if 97 \<le> n \<and> n \<le> 122 then Some (n - 87)
         else if 65 \<le> n \<and> n \<le> 90 then Some (n - 55)
         else None)"

definition isRadixDigit :: "nat \<Rightarrow> char \<Rightarrow> bool" where
  "isRadixDigit R c = (case digitValue c of None \<Rightarrow> False | Some d \<Rightarrow> d < R)"

definition digitsValue :: "nat \<Rightarrow> string \<Rightarrow> nat" where
  "digitsValue R Z = foldl (\<lambda>acc c. acc * R + (case digitValue c of None \<Rightarrow> 0 | Some d \<Rightarrow> d)) 0 Z"

text \<open>
  The double nearest to a natural number, ties going to the even significand, as a Number
  is made from a mathematical value. A double has 53 significant bits: \<open>exponent n\<close> is
  the number of low bits of \<open>n\<close> beyond them, so a number below \<open>2 ^ 53\<close> is its own
  double. A result of \<open>2 ^ 1024\<close> or more is out of range (\<open>None\<close>) and becomes an infinity.
\<close>

fun exponent :: "nat \<Rightarrow> nat" where
  "exponent n = (if n < 2 ^ 53 then 0 else Suc (exponent (n div 2)))"

definition roundToDouble :: "nat \<Rightarrow> nat option" where
  "roundToDouble n =
     (let e = exponent n;
          q = n div 2 ^ e;
          r = n mod 2 ^ e;
          q' = (if 2 ^ e < 2 * r \<or> (2 * r = 2 ^ e \<and> odd q) then q + 1 else q);
          v = q' * 2 ^ e
      in if 2 ^ 1024 \<le> v then None else Some v)"

definition toNumber :: "int \<Rightarrow> nat \<Rightarrow> number" where
  "toNumber sign mathInt =
     (case roundToDouble mathInt of
        None \<Rightarrow> if sign < 0 then NegInfinity else PosInfinity
      | Some v \<Rightarrow> Fin (sign * int v))"

text \<open>
  \<^verbatim>\<open>parseInt(string)\<close> with no radix, step by step as ECMAScript defines it: skip leading
  white space, take a sign, take the prefix \<^verbatim>\<open>0x\<close> or \<^verbatim>\<open>0X\<close> for radix 16 and radix 10
  otherwise, read the longest run of digits of the radix, give \<^verbatim>\<open>NaN\<close> when it is
  empty and otherwise the Number for the signed value of the digits. (ECMAScript lets an
  implementation drop decimal digits after the twentieth; Node rounds the exact value.)
\<close>

definition parseInt_str :: "string \<Rightarrow> number" where
  "parseInt_str inputString =
     (let S = dropWhile isStrWhiteSpaceChar inputString;
          sign = (if take 1 S = ''-'' then - 1 else 1 :: int);
          S1 = (if take 1 S = ''+'' \<or> take 1 S = ''-'' then drop 1 S else S);
          hex = (take 2 S1 = ''0x'' \<or> take 2 S1 = ''0X'');
          R = (if hex then 16 else 10);
          S2 = (if hex then drop 2 S1 else S1);
          Z = takeWhile (isRadixDigit R) S2
      in if Z = [] then NaN else toNumber sign (digitsValue R Z))"

definition parseInt :: "string option \<Rightarrow> number" where
  "parseInt v = parseInt_str (toString v)"

text \<open>\<^verbatim>\<open>x || d\<close> for a Number \<open>x\<close>: \<^verbatim>\<open>NaN\<close> and zero are falsy.\<close>

definition or_number :: "number \<Rightarrow> number \<Rightarrow> number" where
  "or_number x d = (if x = NaN \<or> x = Fin 0 then d else x)"

text \<open>\<^verbatim>\<open>Math.min(x, y)\<close>: \<^verbatim>\<open>NaN\<close> if either is, and the lesser of the two otherwise.\<close>

fun math_min :: "number \<Rightarrow> number \<Rightarrow> number" where
  "math_min NaN y = NaN"
| "math_min x NaN = NaN"
| "math_min NegInfinity y = NegInfinity"
| "math_min x NegInfinity = NegInfinity"
| "math_min PosInfinity y = y"
| "math_min x PosInfinity = x"
| "math_min (Fin a) (Fin b) = Fin (min a b)"

text \<open>\<^verbatim>\<open>x || d\<close> for \<open>x\<close> a string or \<^verbatim>\<open>undefined\<close>: \<^verbatim>\<open>undefined\<close> and the empty string are falsy.\<close>

definition or_value :: "string option \<Rightarrow> jsval \<Rightarrow> jsval" where
  "or_value x d = (case x of None \<Rightarrow> d | Some s \<Rightarrow> if s = [] then d else Str s)"

definition or_string :: "string option \<Rightarrow> string \<Rightarrow> string" where
  "or_string x d = (case x of None \<Rightarrow> d | Some s \<Rightarrow> if s = [] then d else s)"

definition valueOf :: "string option \<Rightarrow> jsval" where
  "valueOf x = (case x of None \<Rightarrow> Undefined | Some s \<Rightarrow> Str s)"

section \<open>Requests, responses and the upstream\<close>

record request =
  req_ip :: client
  req_params :: "string \<rightharpoonup> string"
  req_query :: "string \<rightharpoonup> string"

text \<open>
  What a handler hands to Express with \<^verbatim>\<open>res.status(n).json(data)\<close>: the status code it
  set and the value it gave. What goes to the client for it is \<open>send\<close> below.
\<close>

record response =
  res_status :: int
  res_body :: json

text \<open>The arguments of one \<^verbatim>\<open>axios.get\<close>.\<close>

record outbound =
  url :: string
  params :: "(string \<times> jsval) list"
  headers :: "(string \<times> string) list"

text \<open>
  What \<^verbatim>\<open>await axios.get\<close> gives: the \<^verbatim>\<open>data\<close> of a response with a 2xx status, or
  a thrown error with its \<^verbatim>\<open>message\<close> and, when the upstream answered, the status of
  \<^verbatim>\<open>error.response\<close> (a network failure has none). The status of an HTTP response is a
  code of three digits, and axios throws for the ones outside 200 to 299.
\<close>

record axios_error =
  err_status :: "int option"
  err_message :: string

datatype axios_result = Resolved json | Rejected axios_error

type_synonym upstream = "outbound \<Rightarrow> axios_result"

text \<open>
  What a handler did with one request: the map of the rate limiter afterwards, the answer
  it handed to Express, the upstream calls made and the lines given to \<^verbatim>\<open>console.error\<close>.
\<close>

record outcome =
  counts :: requestCounts
  reply :: response
  calls :: "outbound list"
  logged :: "string list list"

text \<open>
  \<^verbatim>\<open>res.json(data)\<close> leaves the status code at its default 200;
  \<^verbatim>\<open>res.status(n).json(data)\<close> sets it to \<open>n\<close>.
\<close>

definition res_json :: "json \<Rightarrow> response" where
  "res_json data = \<lparr>res_status = 200, res_body = data\<rparr>"

definition res_status_json :: "int \<Rightarrow> json \<Rightarrow> response" where
  "res_status_json n data = \<lparr>res_status = n, res_body = data\<rparr>"

text \<open>\<^verbatim>\<open>error.response?.status || 500\<close>\<close>

definition error_status :: "axios_error \<Rightarrow> int" where
  "error_status error =
     (case err_status error of None \<Rightarrow> 500 | Some status \<Rightarrow> if status = 0 then 500 else status)"

text \<open>
  \<^verbatim>\<open>
  app.get('/', (req, res) => {
      res.json({ status: 'online', message: 'Roblox Gamepass Proxy API',
          endpoints: { gamepassDetails: '/api/gamepasses/:id/details',
              userInventory: '/api/users/:userId/inventory/gamepasses',
              creatorGamepasses: '/api/users/:userId/gamepasses' } });
  });
  \<close>
\<close>

definition descriptor :: json where
  "descriptor = JObj
     [(''status'', JStr ''online''),
      (''message'', JStr ''Roblox Gamepass Proxy API''),
      (''endpoints'', JObj
         [(''gamepassDetails'', JStr ''/api/gamepasses/:id/details''),
          (''userInventory'', JStr ''/api/users/:userId/inventory/gamepasses''),
          (''creatorGamepasses'', JStr ''/api/users/:userId/gamepasses'')])]"

definition healthCheck :: "requestCounts \<Rightarrow> request \<Rightarrow> outcome" where
  "healthCheck requestCounts req =
     \<lparr>counts = requestCounts, reply = res_json descriptor, calls = [], logged = []\<rparr>"

text \<open>The answer of all three proxy handlers to a client over its quota.\<close>

definition rateLimited :: "requestCounts \<Rightarrow> outcome" where
  "rateLimited requestCounts =
     \<lparr>counts = requestCounts,
      reply = res_status_json 429 (JObj [(''error'', JStr ''Rate limit exceeded'')]),
      calls = [],
      logged = []\<rparr>"

text \<open>
  The \<^verbatim>\<open>try\<close>/\<^verbatim>\<open>catch\<close> around \<^verbatim>\<open>axios.get\<close>, the same in the three handlers but for
  the two texts: relay the data, or log and answer with the status of the error.
\<close>

definition fetch :: "upstream \<Rightarrow> requestCounts \<Rightarrow> outbound \<Rightarrow> string \<Rightarrow> string \<Rightarrow> outcome" where
  "fetch upstream requestCounts call logText category =
     (case upstream call of
        Resolved data \<Rightarrow>
          \<lparr>counts = requestCounts, reply = res_json data, calls = [call], logged = []\<rparr>
      | Rejected error \<Rightarrow>
          \<lparr>counts = requestCounts,
           reply = res_status_json (error_status error)
             (JObj [(''error'', JStr category), (''message'', JStr (err_message error))]),
           calls = [call],
           logged = [[logText, err_message error]]\<rparr>)"

text \<open>\<^verbatim>\<open>app.get('/api/gamepasses/:id/details', ...)\<close>, lines 47 to 74.\<close>

definition gamepassDetails :: "upstream \<Rightarrow> int \<Rightarrow> requestCounts \<Rightarrow> request \<Rightarrow> outcome" where
  "gamepassDetails upstream now requestCounts req =
     (let ip = req_ip req
      in case checkRateLimit requestCounts ip now of
        (False, requestCounts') \<Rightarrow> rateLimited requestCounts'
      | (True, requestCounts') \<Rightarrow>
          (let gamepassId = req_params req ''id''
           in fetch upstream requestCounts'
                \<lparr>url = ''https://apis.roblox.com/game-passes/v1/game-passes/''
                         @ toString gamepassId @ ''/details'',
                 params = [],
                 headers = [(''User-Agent'', ''RobloxGamepassProxy/1.0'')]\<rparr>
                ''Error fetching gamepass details:''
                ''Failed to fetch gamepass details''))"

text \<open>\<^verbatim>\<open>app.get('/api/users/:userId/inventory/gamepasses', ...)\<close>, lines 77 to 111.\<close>

definition userInventory :: "upstream \<Rightarrow> int \<Rightarrow> requestCounts \<Rightarrow> request \<Rightarrow> outcome" where
  "userInventory upstream now requestCounts req =
     (let ip = req_ip req
      in case checkRateLimit requestCounts ip now of
        (False, requestCounts') \<Rightarrow> rateLimited requestCounts'
      | (True, requestCounts') \<Rightarrow>
          (let userId = req_params req ''userId'';
               page = or_value (req_query req ''page'') (Num (Fin 1));
               limit = math_min (or_number (parseInt (req_query req ''limit'')) (Fin 50)) (Fin 100)
           in fetch upstream requestCounts'
                \<lparr>url = ''https://inventory.roblox.com/v1/users/''
                         @ toString userId @ ''/assets/collectibles'',
                 params =
                   [(''assetType'', Str ''GamePass''),
                    (''limit'', Num limit),
                    (''cursor'', Str (or_string (req_query req ''cursor'') ''''))],
                 headers = [(''User-Agent'', ''RobloxGamepassProxy/1.0'')]\<rparr>
                ''Error fetching user inventory:''
                ''Failed to fetch user inventory''))"

text \<open>\<^verbatim>\<open>app.get('/api/users/:userId/gamepasses', ...)\<close>, lines 114 to 150.\<close>

definition creatorGamepasses :: "upstream \<Rightarrow> int \<Rightarrow> requestCounts \<Rightarrow> request \<Rightarrow> outcome" where
  "creatorGamepasses upstream now requestCounts req =
     (let ip = req_ip req
      in case checkRateLimit requestCounts ip now of
        (False, requestCounts') \<Rightarrow> rateLimited requestCounts'
      | (True, requestCounts') \<Rightarrow>
          (let userId = req_params req ''userId'';
               cursor = or_string (req_query req ''cursor'') '''';
               limit = math_min (or_number (parseInt (req_query req ''limit'')) (Fin 50)) (Fin 100)
           in fetch upstream requestCounts'
                \<lparr>url = ''https://apis.roblox.com/toolbox-service/v1/creations/get-user-creations'',
                 params =
                   [(''userId'', valueOf userId),
                    (''assetType'', Num (Fin 34)),
                    (''limit'', Num limit),
                    (''cursor'', Str cursor),
                    (''isArchived'', Bool False)],
                 headers = [(''User-Agent'', ''RobloxGamepassProxy/1.0'')]\<rparr>
                ''Error fetching creator gamepasses:''
                ''Failed to fetch creator gamepasses''))"

text \<open>
  The four routes, and the handler Express runs for each once the middleware has passed
  the request on.
\<close>

datatype route = Root | GamepassDetails | UserInventory | CreatorGamepasses

fun serve :: "route \<Rightarrow> upstream \<Rightarrow> int \<Rightarrow> requestCounts \<Rightarrow> request \<Rightarrow> outcome" where
  "serve Root upstream now requestCounts req = healthCheck requestCounts req"
| "serve GamepassDetails upstream now requestCounts req = gamepassDetails upstream now requestCounts req"
| "serve UserInventory upstream now requestCounts req = userInventory upstream now requestCounts req"
| "serve CreatorGamepasses upstream now requestCounts req = creatorGamepasses upstream now requestCounts req"

text \<open>
  The value of the parameter \<open>name\<close> in the upstream call of a request that made exactly
  one call, and \<open>None\<close> when it made none or the call has no such parameter.
\<close>

definition forwarded :: "outcome \<Rightarrow> string \<Rightarrow> jsval option" where
  "forwarded out name = (case calls out of [call] \<Rightarrow> map_of (params call) name | _ \<Rightarrow> None)"

section \<open>The application around the handlers\<close>

text \<open>
  All routes are registered with \<^verbatim>\<open>app.get\<close>; a request here is a GET request for one
  of them. Before the handler runs, \<^verbatim>\<open>express.json()\<close> (line 10) looks at the body: it
  passes the request on (no body, not JSON, or well-formed JSON, which no handler reads),
  or it refuses it with an error (malformed JSON and the like), which Express gives to the
  error handler of lines 153 to 159.
\<close>

record thrown =
  thrown_stack :: string
  thrown_message :: string

datatype body = Accepted | Refused thrown

text \<open>
  \<open>in_fresh\<close> stands for the validators of a conditional GET: \<open>in_fresh i data\<close> is what
  \<^verbatim>\<open>req.fresh\<close> gives when the body about to be sent is \<open>data\<close>, namely that the request
  has an \<^verbatim>\<open>If-None-Match\<close> header that is \<^verbatim>\<open>*\<close> or lists the entity tag Express computes
  for \<open>data\<close>, no \<^verbatim>\<open>If-Modified-Since\<close> header (the responses carry no date to compare it
  with) and no \<^verbatim>\<open>Cache-Control: no-cache\<close>. A request without validators has
  \<open>\<lambda>data. False\<close>.
\<close>

record incoming =
  in_route :: route
  in_request :: request
  in_body :: body
  in_fresh :: "json \<Rightarrow> bool"

text \<open>What goes to the client: the status and the body, \<open>None\<close> for an empty one.\<close>

record wire =
  w_status :: int
  w_body :: "json option"

text \<open>
  What \<^verbatim>\<open>res.json\<close> of Express sends, through \<^verbatim>\<open>res.send\<close>, for the answer of a
  handler to a GET request: a status of 2xx or 304 becomes 304 when the request is fresh,
  and a response with status 204, 205 or 304 goes out with an empty body, as Node lets one
  with an interim status (1xx) go out.
\<close>

definition send :: "(json \<Rightarrow> bool) \<Rightarrow> response \<Rightarrow> wire" where
  "send fresh res =
     (let statusCode =
            (if ((200 \<le> res_status res \<and> res_status res < 300) \<or> res_status res = 304)
                \<and> fresh (res_body res)
             then 304 else res_status res)
      in \<lparr>w_status = statusCode,
          w_body =
            (if (100 \<le> statusCode \<and> statusCode \<le> 199) \<or>
                statusCode = 204 \<or> statusCode = 205 \<or> statusCode = 304
             then None else Some (res_body res))\<rparr>)"

text \<open>
  \<^verbatim>\<open>
  app.use((err, req, res, next) => {
      console.error(err.stack);
      res.status(500).json({ error: 'Internal server error', message: err.message });
  });
  \<close>
\<close>

definition errorHandler :: "requestCounts \<Rightarrow> thrown \<Rightarrow> outcome" where
  "errorHandler requestCounts err =
     \<lparr>counts = requestCounts,
      reply = res_status_json 500
        (JObj [(''error'', JStr ''Internal server error''),
               (''message'', JStr (thrown_message err))]),
      calls = [],
      logged = [[thrown_stack err]]\<rparr>"

text \<open>What the application did with one request, and what went to the client.\<close>

record delivered =
  d_counts :: requestCounts
  d_sent :: wire
  d_calls :: "outbound list"
  d_logged :: "string list list"

definition app :: "upstream \<Rightarrow> int \<Rightarrow> requestCounts \<Rightarrow> incoming \<Rightarrow> delivered" where
  "app upstream now requestCounts i =
     (let out =
            (case in_body i of
               Refused err \<Rightarrow> errorHandler requestCounts err
             | Accepted \<Rightarrow> serve (in_route i) upstream now requestCounts (in_request i))
      in \<lparr>d_counts = counts out,
          d_sent = send (in_fresh i) (reply out),
          d_calls = calls out,
          d_logged = logged out\<rparr>)"

section \<open>Facts about the rate limiter\<close>

lemma fst_checkRateLimit:
  "fst (checkRateLimit m ip now) \<longleftrightarrow>
     length (filter (\<lambda>time. now - time < RATE_WINDOW) (stored m ip)) < RATE_LIMIT"
  by (simp add: checkRateLimit_def stored_def Let_def)

lemma snd_checkRateLimit_rejected:
  "\<not> fst (checkRateLimit m ip now) \<Longrightarrow> snd (checkRateLimit m ip now) = m"
  by (simp add: checkRateLimit_def Let_def split: if_splits)

lemma stored_checkRateLimit:
  "stored (snd (checkRateLimit m ip now)) c =
     (if c = ip \<and> fst (checkRateLimit m ip now)
      then filter (\<lambda>time. now - time < RATE_WINDOW) (stored m ip) @ [now]
      else stored m c)"
  by (simp add: checkRateLimit_def stored_def Let_def)

lemma length_stored_checkRateLimit:
  assumes "length (stored m c) \<le> RATE_LIMIT"
  shows "length (stored (snd (checkRateLimit m ip now)) c) \<le> RATE_LIMIT"
proof (cases "c = ip \<and> fst (checkRateLimit m ip now)")
  case True
  then have "length (filter (\<lambda>time. now - time < RATE_WINDOW) (stored m ip)) < RATE_LIMIT"
    by (simp add: fst_checkRateLimit)
  with True show ?thesis
    by (simp add: stored_checkRateLimit)
next
  case False
  with assms show ?thesis
    by (auto simp: stored_checkRateLimit)
qed

lemma length_stored_run:
  "length (stored m c) \<le> RATE_LIMIT \<Longrightarrow> length (stored (run m cs) c) \<le> RATE_LIMIT"
proof (induction cs arbitrary: m)
  case Nil
  then show ?case by simp
next
  case (Cons call cs)
  obtain ip now where call: "call = (ip, now)" by (cases call)
  from Cons.prems have "length (stored (snd (checkRateLimit m ip now)) c) \<le> RATE_LIMIT"
    by (rule length_stored_checkRateLimit)
  then show ?case
    unfolding call by (simp add: Cons.IH)
qed

lemma stored_empty: "stored Map.empty c = []"
  by (simp add: stored_def)

lemma length_stored_reachable: "length (stored (run Map.empty cs) c) \<le> RATE_LIMIT"
  by (rule length_stored_run) (simp add: stored_empty)

lemma run_append: "run m (cs @ ds) = run (run m cs) ds"
  by (induction cs arbitrary: m) auto


text \<open>The calls of one client inside one window are all admitted while the quota lasts.\<close>

lemma stored_run_window:
  assumes "length (stored m ip) + length (filter (\<lambda>c. fst c = ip) cs) \<le> RATE_LIMIT"
    and "\<forall>a\<in>set (stored m ip) \<union> set (map snd (filter (\<lambda>c. fst c = ip) cs)). w \<le> a \<and> a < w + RATE_WINDOW"
  shows "stored (run m cs) ip = stored m ip @ map snd (filter (\<lambda>c. fst c = ip) cs)"
  using assms
proof (induction cs arbitrary: m)
  case Nil
  then show ?case by simp
next
  case (Cons call cs)
  obtain c now where call: "call = (c, now)" by (cases call)
  show ?case
  proof (cases "c = ip")
    case True
    let ?m = "snd (checkRateLimit m ip now)"
    have call': "call = (ip, now)"
      using call True by simp
    have now: "now < w + RATE_WINDOW"
      using Cons.prems(2) by (simp add: call')
    have "now - x < RATE_WINDOW" if "x \<in> set (stored m ip)" for x
    proof -
      from that Cons.prems(2) have "w \<le> x" by blast
      with now show ?thesis by arith
    qed
    then have keep: "filter (\<lambda>time. now - time < RATE_WINDOW) (stored m ip) = stored m ip"
      by (simp add: filter_id_conv)
    have adm: "fst (checkRateLimit m ip now)"
      using Cons.prems(1) by (simp add: fst_checkRateLimit keep call')
    have st: "stored ?m ip = stored m ip @ [now]"
      using adm keep by (simp add: stored_checkRateLimit)
    have "stored (run ?m cs) ip = stored ?m ip @ map snd (filter (\<lambda>c. fst c = ip) cs)"
    proof (rule Cons.IH)
      show "length (stored ?m ip) + length (filter (\<lambda>c. fst c = ip) cs) \<le> RATE_LIMIT"
        using Cons.prems(1) by (simp add: st call')
      show "\<forall>a\<in>set (stored ?m ip) \<union> set (map snd (filter (\<lambda>c. fst c = ip) cs)). w \<le> a \<and> a < w + RATE_WINDOW"
        using Cons.prems(2) by (auto simp: st call')
    qed
    then show ?thesis
      by (simp add: call' st)
  next
    case False
    let ?m = "snd (checkRateLimit m c now)"
    have st: "stored ?m ip = stored m ip"
      using False by (auto simp: stored_checkRateLimit)
    have "stored (run ?m cs) ip = stored ?m ip @ map snd (filter (\<lambda>c. fst c = ip) cs)"
    proof (rule Cons.IH)
      show "length (stored ?m ip) + length (filter (\<lambda>c. fst c = ip) cs) \<le> RATE_LIMIT"
        using Cons.prems(1) False by (simp add: st call)
      have "\<forall>a\<in>set (stored m ip) \<union> set (map snd (filter (\<lambda>c. fst c = ip) cs)).
          w \<le> a \<and> a < w + RATE_WINDOW"
        using Cons.prems(2) False by (simp add: call)
      then show "\<forall>a\<in>set (stored ?m ip) \<union> set (map snd (filter (\<lambda>c. fst c = ip) cs)).
          w \<le> a \<and> a < w + RATE_WINDOW"
        by (simp add: st)
    qed
    then show ?thesis
      using False by (simp add: call st)
  qed
qed

section \<open>Claims about the rate limiter\<close>

text \<open>
  Claim C1, as it is worded, discards the entries older than \<open>now - 60000\<close> and so
  keeps an entry whose age is exactly 60000 ms. The code keeps an entry only while
  \<open>now - time < 60000\<close>. With 100 entries stored at time 0, a call at time 60000 is
  admitted by the code and rejected by the worded operation.
\<close>

theorem admit_spec_boundary_counterexample:
  "fst (checkRateLimit (Map.empty(''c'' \<mapsto> replicate 100 0)) ''c'' 60000) \<and>
   \<not> fst (admit_spec (Map.empty(''c'' \<mapsto> replicate 100 0)) ''c'' 60000)"
  by (simp add: checkRateLimit_def admit_spec_def stored_def RATE_WINDOW_def RATE_LIMIT_def)

text \<open>
  Claim C1, amended: for every client and every time \<open>now\<close>, \<open>checkRateLimit\<close> takes
  the stored sequence of the client (empty if none), discards every entry with
  \<open>time \<le> now - 60000\<close>, returns false with the map as it was when at least 100 entries
  remain, and otherwise stores the remaining entries followed by \<open>now\<close> and returns true.
\<close>

theorem checkRateLimit_admit_amended:
  "checkRateLimit m ip now = admit_amended m ip now"
proof -
  have "(\<lambda>time. now - time < RATE_WINDOW) = (\<lambda>t. \<not> t \<le> now - 60000)"
    by (auto simp: RATE_WINDOW_def)
  then show ?thesis
    by (simp add: checkRateLimit_def admit_amended_def stored_def RATE_LIMIT_def)
qed


text \<open>
  Claim C3: in every state reached from the empty map by calls of \<open>checkRateLimit\<close>, after
  a further decision at time \<open>now\<close> for any client, the number of timestamps stored for
  any client \<open>c\<close> that lie inside the window ending at \<open>now\<close> is at most 100.
\<close>

theorem quota_invariant:
  "length (filter (\<lambda>time. now - time < RATE_WINDOW)
     (stored (snd (checkRateLimit (run Map.empty cs) ip now)) c)) \<le> RATE_LIMIT"
proof -
  have "length (stored (run Map.empty (cs @ [(ip, now)])) c) \<le> RATE_LIMIT"
    by (rule length_stored_reachable)
  then have "length (stored (snd (checkRateLimit (run Map.empty cs) ip now)) c) \<le> RATE_LIMIT"
    by (simp add: run_append)
  moreover have "length (filter (\<lambda>time. now - time < RATE_WINDOW)
     (stored (snd (checkRateLimit (run Map.empty cs) ip now)) c))
     \<le> length (stored (snd (checkRateLimit (run Map.empty cs) ip now)) c)"
    by (rule length_filter_le)
  ultimately show ?thesis
    by (rule order_trans[rotated])
qed

text \<open>
  Claim C4: let the calls of client \<open>ip\<close> in a run from the empty map be exactly 100, at
  times \<open>ts\<close> that lie in one window \<open>[w, w + 60000)\<close>, whatever other clients do in
  between. Then all 100 are admitted (the stored sequence is \<open>ts\<close>), the next call at a
  time \<open>t\<close> of the same window is rejected, and a call at a time \<open>t'\<close> more than 60000 ms
  after the first admitted one is admitted.
\<close>

theorem quota_within_window:
  assumes calls: "map snd (filter (\<lambda>c. fst c = ip) cs) = ts"
    and quota: "length ts = RATE_LIMIT"
    and window: "\<forall>a\<in>set (t # ts). w \<le> a \<and> a < w + RATE_WINDOW"
    and later: "hd ts + RATE_WINDOW < t'"
  shows "stored (run Map.empty cs) ip = ts \<and>
         \<not> fst (checkRateLimit (run Map.empty cs) ip t) \<and>
         fst (checkRateLimit (snd (checkRateLimit (run Map.empty cs) ip t)) ip t')"
proof -
  let ?m = "run Map.empty cs"
  have "stored ?m ip = stored Map.empty ip @ map snd (filter (\<lambda>c. fst c = ip) cs)"
  proof (rule stored_run_window)
    have "length (filter (\<lambda>c. fst c = ip) cs) = length ts"
      using calls by (metis length_map)
    then show "length (stored Map.empty ip) + length (filter (\<lambda>c. fst c = ip) cs) \<le> RATE_LIMIT"
      using quota by (simp add: stored_empty)
    show "\<forall>a\<in>set (stored Map.empty ip) \<union> set (map snd (filter (\<lambda>c. fst c = ip) cs)). w \<le> a \<and> a < w + RATE_WINDOW"
      using window calls by (simp add: stored_empty)
  qed
  then have st: "stored ?m ip = ts"
    using calls by (simp add: stored_empty)
  have "t - x < RATE_WINDOW" if "x \<in> set ts" for x
  proof -
    from that window have "w \<le> x" by simp
    moreover from window have "t < w + RATE_WINDOW" by simp
    ultimately show ?thesis by arith
  qed
  then have "filter (\<lambda>time. t - time < RATE_WINDOW) ts = ts"
    by (simp add: filter_id_conv)
  then have rej: "\<not> fst (checkRateLimit ?m ip t)"
    using quota by (simp add: fst_checkRateLimit st)
  then have same: "snd (checkRateLimit ?m ip t) = ?m"
    by (rule snd_checkRateLimit_rejected)
  from quota obtain x xs where ts: "ts = x # xs"
    by (cases ts) (simp_all add: RATE_LIMIT_def)
  have "\<not> t' - x < RATE_WINDOW"
    using later by (simp add: ts)
  then have "length (filter (\<lambda>time. t' - time < RATE_WINDOW) ts) \<le> length xs"
    by (simp add: ts)
  also have "length xs < RATE_LIMIT"
    using quota by (simp add: ts)
  finally have "fst (checkRateLimit ?m ip t')"
    by (simp add: fst_checkRateLimit st)
  with st rej same show ?thesis by simp
qed

theorem quota_within_window_witness:
  "stored (run Map.empty (replicate 100 (''c'', 0))) ''c'' = replicate 100 0 \<and>
   \<not> fst (checkRateLimit (run Map.empty (replicate 100 (''c'', 0))) ''c'' 59999) \<and>
   fst (checkRateLimit
     (snd (checkRateLimit (run Map.empty (replicate 100 (''c'', 0))) ''c'' 59999)) ''c'' 60001)"
  using quota_within_window [of "''c''" "replicate 100 (''c'', 0)" "replicate 100 0" 59999 0 60001]
  by (simp add: RATE_LIMIT_def RATE_WINDOW_def)

section \<open>Facts about Numbers\<close>

declare exponent.simps [simp del]

lemma exponent_small: "n < 2 ^ 53 \<Longrightarrow> exponent n = 0"
  by (simp add: exponent.simps)

lemma roundToDouble_small: "n < 2 ^ 53 \<Longrightarrow> roundToDouble n = Some n"
  by (simp add: roundToDouble_def exponent_small)

lemma roundToDouble_exact: "n \<le> 2 ^ 53 \<Longrightarrow> roundToDouble n = Some n"
proof (cases "n < 2 ^ 53")
  case True
  then show ?thesis by (rule roundToDouble_small)
next
  case False
  assume "n \<le> 2 ^ 53"
  with False have n: "n = 2 ^ 53" by simp
  have "exponent n = Suc 0"
    unfolding n by (simp add: exponent.simps [of 9007199254740992] exponent_small)
  then show ?thesis
    by (simp add: roundToDouble_def n)
qed

lemma toNumber_exact: "n \<le> 2 ^ 53 \<Longrightarrow> toNumber s n = Fin (s * int n)"
  by (simp add: toNumber_def roundToDouble_exact)

lemma exponent_div: "2 ^ 52 \<le> n \<Longrightarrow> 2 ^ 52 \<le> n div 2 ^ exponent n"
proof (induction n rule: exponent.induct)
  case (1 n)
  show ?case
  proof (cases "n < 2 ^ 53")
    case True
    with "1.prems" show ?thesis by (simp add: exponent_small)
  next
    case False
    then have "2 ^ 52 \<le> n div 2" by simp
    with False "1.IH" have "2 ^ 52 \<le> (n div 2) div 2 ^ exponent (n div 2)" by simp
    moreover have "exponent n = Suc (exponent (n div 2))"
      using False by (simp add: exponent.simps [of n])
    ultimately show ?thesis
      by (simp add: div_mult2_eq)
  qed
qed

lemma roundToDouble_large:
  assumes "roundToDouble n = Some v" and "2 ^ 52 \<le> n"
  shows "2 ^ 52 \<le> v"
proof -
  let ?e = "exponent n"
  let ?q = "n div 2 ^ ?e"
  have q: "2 ^ 52 \<le> ?q"
    using assms(2) by (rule exponent_div)
  let ?q' = "if 2 ^ ?e < 2 * (n mod 2 ^ ?e) \<or> (2 * (n mod 2 ^ ?e) = 2 ^ ?e \<and> odd ?q)
             then ?q + 1 else ?q"
  have v: "v = ?q' * 2 ^ ?e"
    using assms(1) by (auto simp: roundToDouble_def Let_def split: if_splits)
  have "2 ^ 52 \<le> ?q'"
    using q by simp
  also have "?q' \<le> ?q' * 2 ^ ?e"
    by simp
  finally show ?thesis
    by (simp only: v)
qed

text \<open>The Number of a positive value is positive, and large when the value is.\<close>

lemma toNumber_cases:
  "toNumber s n = (if s < 0 then NegInfinity else PosInfinity) \<or>
   (\<exists>v. toNumber s n = Fin (s * int v) \<and> (if n < 2 ^ 52 then v = n else 2 ^ 52 \<le> v))"
proof (cases "roundToDouble n")
  case None
  then show ?thesis by (simp add: toNumber_def)
next
  case (Some v)
  have "if n < 2 ^ 52 then v = n else 2 ^ 52 \<le> v"
  proof (cases "n < 2 ^ 52")
    case True
    then have "roundToDouble n = Some n" by (simp add: roundToDouble_small)
    with Some True show ?thesis by simp
  next
    case False
    with roundToDouble_large [OF Some] show ?thesis by simp
  qed
  with Some show ?thesis by (auto simp: toNumber_def)
qed

lemma limit_above_100:
  assumes "100 < n"
  shows "math_min (or_number (toNumber 1 n) (Fin 50)) (Fin 100) = Fin 100"
  using toNumber_cases [of 1 n] assms
  by (auto simp: or_number_def split: if_splits)


lemma limit_small:
  assumes "0 < n" and "n \<le> 100"
  shows "math_min (or_number (toNumber 1 n) (Fin 50)) (Fin 100) = Fin (int n)"
  using assms by (simp add: toNumber_exact or_number_def)


lemma limit_NaN: "math_min (or_number NaN (Fin 50)) (Fin 100) = Fin 50"
  by (simp add: or_number_def)


lemmas parseInt_eval = parseInt_def toString_def parseInt_str_def isStrWhiteSpaceChar_def
  isRadixDigit_def digitValue_def digitsValue_def

section \<open>Facts about parseInt\<close>

lemma isRadixDigit_10:
  "isRadixDigit 10 c \<longleftrightarrow> 48 \<le> (of_char c :: nat) \<and> (of_char c :: nat) \<le> 57"
  by (auto simp: isRadixDigit_def digitValue_def Let_def)

lemma digit_not_space: "isRadixDigit 10 c \<Longrightarrow> \<not> isStrWhiteSpaceChar c"
  by (auto simp: isRadixDigit_10 isStrWhiteSpaceChar_def)

lemma digit_not_mark:
  "isRadixDigit 10 c \<Longrightarrow>
   c \<noteq> CHR ''-'' \<and> c \<noteq> CHR ''+'' \<and> c \<noteq> CHR ''x'' \<and> c \<noteq> CHR ''X''"
  by (auto simp: isRadixDigit_10)

lemma zero_is_digit: "isRadixDigit 10 CHR ''0''"
  by (simp add: isRadixDigit_10)

lemma sign_not_space: "\<not> isStrWhiteSpaceChar CHR ''-''" "\<not> isStrWhiteSpaceChar CHR ''+''"
  by (simp_all add: isStrWhiteSpaceChar_def)

lemma digitsValue_zero: "digitsValue 10 ''0'' = 0"
  by (simp add: digitsValue_def digitValue_def)

text \<open>The white space in front of a text is skipped.\<close>

lemma parseInt_str_skip:
  assumes "\<forall>c\<in>set ws. isStrWhiteSpaceChar c"
  shows "parseInt_str (ws @ s) = parseInt_str s"
proof -
  have "dropWhile isStrWhiteSpaceChar (ws @ s) = dropWhile isStrWhiteSpaceChar s"
    using assms by (simp add: dropWhile_append2)
  then show ?thesis
    by (simp add: parseInt_str_def)
qed

text \<open>A decimal numeral followed by nothing or by something that is no digit.\<close>

lemma decimal_run:
  assumes "ds \<noteq> []" and "\<forall>c\<in>set ds. isRadixDigit 10 c"
    and "rest = [] \<or> \<not> isRadixDigit 10 (hd rest)"
    and "ds = ''0'' \<longrightarrow> rest = [] \<or> (hd rest \<noteq> CHR ''x'' \<and> hd rest \<noteq> CHR ''X'')"
  shows "takeWhile (isRadixDigit 10) (ds @ rest) = ds"
    and "take 2 (ds @ rest) \<noteq> ''0x''" and "take 2 (ds @ rest) \<noteq> ''0X''"
    and "take 1 (ds @ rest) \<noteq> ''-''" and "take 1 (ds @ rest) \<noteq> ''+''"
    and "dropWhile isStrWhiteSpaceChar (ds @ rest) = ds @ rest"
proof -
  from assms(1) obtain d ds' where ds: "ds = d # ds'" by (cases ds) auto
  have d: "isRadixDigit 10 d"
    using assms(2) by (simp add: ds)
  have "takeWhile (isRadixDigit 10) rest = []"
    using assms(3) by (cases rest) auto
  then show "takeWhile (isRadixDigit 10) (ds @ rest) = ds"
    using assms(2) by (simp add: takeWhile_append2)
  show "take 1 (ds @ rest) \<noteq> ''-''" "take 1 (ds @ rest) \<noteq> ''+''"
    using digit_not_mark [OF d] by (simp_all add: ds)
  show "dropWhile isStrWhiteSpaceChar (ds @ rest) = ds @ rest"
    using digit_not_space [OF d] by (simp add: ds)
  show "take 2 (ds @ rest) \<noteq> ''0x''" "take 2 (ds @ rest) \<noteq> ''0X''"
  proof -
    show "take 2 (ds @ rest) \<noteq> ''0x''"
    proof (cases ds')
      case Nil
      with assms(4) show ?thesis by (cases rest) (auto simp: ds)
    next
      case (Cons d' ds'')
      with assms(2) have "isRadixDigit 10 d'" by (simp add: ds)
      from digit_not_mark [OF this] show ?thesis by (simp add: ds Cons)
    qed
    show "take 2 (ds @ rest) \<noteq> ''0X''"
    proof (cases ds')
      case Nil
      with assms(4) show ?thesis by (cases rest) (auto simp: ds)
    next
      case (Cons d' ds'')
      with assms(2) have "isRadixDigit 10 d'" by (simp add: ds)
      from digit_not_mark [OF this] show ?thesis by (simp add: ds Cons)
    qed
  qed
qed

lemma parseInt_str_decimal:
  assumes ws: "\<forall>c\<in>set ws. isStrWhiteSpaceChar c"
    and sg: "sg = [] \<or> sg = ''+'' \<or> sg = ''-''"
    and ds: "ds \<noteq> []" "\<forall>c\<in>set ds. isRadixDigit 10 c"
    and rest: "rest = [] \<or> \<not> isRadixDigit 10 (hd rest)"
    and nohex: "ds = ''0'' \<longrightarrow> rest = [] \<or> (hd rest \<noteq> CHR ''x'' \<and> hd rest \<noteq> CHR ''X'')"
  shows "parseInt_str (ws @ sg @ ds @ rest) =
           toNumber (if sg = ''-'' then - 1 else 1) (digitsValue 10 ds)"
proof -
  note run = decimal_run [OF ds rest nohex]
  have plain: "parseInt_str (ds @ rest) =
      (if ds = [] then NaN else toNumber 1 (digitsValue 10 ds))"
    by (simp only: parseInt_str_def Let_def run if_False simp_thms)
  have plus: "parseInt_str (''+'' @ ds @ rest) =
      (if ds = [] then NaN else toNumber 1 (digitsValue 10 ds))"
  proof -
    have s: "dropWhile isStrWhiteSpaceChar (''+'' @ ds @ rest) = ''+'' @ ds @ rest"
      "take 1 (''+'' @ ds @ rest) = ''+''" "drop 1 (''+'' @ ds @ rest) = ds @ rest"
      "''+'' \<noteq> ''-''"
      by (simp_all add: sign_not_space)
    show ?thesis
      by (simp only: parseInt_str_def Let_def s run if_False if_True simp_thms)
  qed
  have minus: "parseInt_str (''-'' @ ds @ rest) =
      (if ds = [] then NaN else toNumber (- 1) (digitsValue 10 ds))"
  proof -
    have s: "dropWhile isStrWhiteSpaceChar (''-'' @ ds @ rest) = ''-'' @ ds @ rest"
      "take 1 (''-'' @ ds @ rest) = ''-''" "drop 1 (''-'' @ ds @ rest) = ds @ rest"
      by (simp_all add: sign_not_space)
    show ?thesis
      by (simp only: parseInt_str_def Let_def s run if_False if_True simp_thms)
  qed
  have "parseInt_str (ws @ sg @ ds @ rest) = parseInt_str (sg @ ds @ rest)"
    using ws by (rule parseInt_str_skip)
  also have "\<dots> = toNumber (if sg = ''-'' then - 1 else 1) (digitsValue 10 ds)"
    using sg ds(1) plain plus minus by auto
  finally show ?thesis .
qed

text \<open>A text with no digit after the white space and the sign.\<close>

lemma parseInt_str_no_digit:
  assumes ws: "\<forall>c\<in>set ws. isStrWhiteSpaceChar c"
    and sg: "sg = [] \<or> sg = ''+'' \<or> sg = ''-''"
    and rest: "rest = [] \<or> \<not> isRadixDigit 10 (hd rest)"
    and bare: "sg = [] \<longrightarrow> rest = [] \<or>
      (\<not> isStrWhiteSpaceChar (hd rest) \<and> hd rest \<noteq> CHR ''+'' \<and> hd rest \<noteq> CHR ''-'')"
  shows "parseInt_str (ws @ sg @ rest) = NaN"
proof -
  have run: "takeWhile (isRadixDigit 10) rest = []"
    "take 2 rest \<noteq> ''0x''" "take 2 rest \<noteq> ''0X''"
    using rest zero_is_digit by (cases rest; auto)+
  have body: "parseInt_str (sg @ rest) = NaN"
  proof -
    consider "sg = []" | "sg = ''+''" | "sg = ''-''" using sg by blast
    then show ?thesis
    proof cases
      case 1
      have s: "dropWhile isStrWhiteSpaceChar rest = rest"
        "take 1 rest \<noteq> ''-''" "take 1 rest \<noteq> ''+''"
        using bare 1 by (cases rest; auto)+
      show ?thesis
        unfolding 1 append_Nil
        by (simp only: parseInt_str_def Let_def s run if_False if_True simp_thms)
    next
      case 2
      have s: "dropWhile isStrWhiteSpaceChar (''+'' @ rest) = ''+'' @ rest"
        "take 1 (''+'' @ rest) = ''+''" "drop 1 (''+'' @ rest) = rest" "''+'' \<noteq> ''-''"
        by (simp_all add: sign_not_space)
      show ?thesis
        unfolding 2
        by (simp only: parseInt_str_def Let_def s run if_False if_True simp_thms)
    next
      case 3
      have s: "dropWhile isStrWhiteSpaceChar (''-'' @ rest) = ''-'' @ rest"
        "take 1 (''-'' @ rest) = ''-''" "drop 1 (''-'' @ rest) = rest"
        by (simp_all add: sign_not_space)
      show ?thesis
        unfolding 3
        by (simp only: parseInt_str_def Let_def s run if_False if_True simp_thms)
    qed
  qed
  have "parseInt_str (ws @ sg @ rest) = parseInt_str (sg @ rest)"
    using ws by (rule parseInt_str_skip)
  with body show ?thesis by simp
qed

lemma parseInt_absent: "parseInt None = NaN"
  by (simp add: parseInt_eval)

lemma parseInt_present: "parseInt (Some s) = parseInt_str s"
  by (simp add: parseInt_def toString_def)

section \<open>Facts about the handlers\<close>

lemma case_decision:
  "(case p of (False, x) \<Rightarrow> A x | (True, x) \<Rightarrow> B x) = (if fst p then B (snd p) else A (snd p))"
  by (simp split: prod.split bool.split)

lemma gamepassDetails_rejected:
  "\<not> fst (checkRateLimit m (req_ip req) now) \<Longrightarrow> gamepassDetails up now m req = rateLimited m"
  by (simp add: gamepassDetails_def case_decision snd_checkRateLimit_rejected)

lemma userInventory_rejected:
  "\<not> fst (checkRateLimit m (req_ip req) now) \<Longrightarrow> userInventory up now m req = rateLimited m"
  by (simp add: userInventory_def case_decision snd_checkRateLimit_rejected)

lemma creatorGamepasses_rejected:
  "\<not> fst (checkRateLimit m (req_ip req) now) \<Longrightarrow> creatorGamepasses up now m req = rateLimited m"
  by (simp add: creatorGamepasses_def case_decision snd_checkRateLimit_rejected)

lemma calls_fetch: "calls (fetch up m call logText category) = [call]"
  by (simp add: fetch_def split: axios_result.split)

lemma reply_fetch_rejected:
  "up call = Rejected e \<Longrightarrow>
   reply (fetch up m call logText category) =
     \<lparr>res_status = error_status e,
      res_body = JObj [(''error'', JStr category), (''message'', JStr (err_message e))]\<rparr>"
  by (simp add: fetch_def res_status_json_def)

lemma calls_rateLimited: "calls (rateLimited m) = []"
  by (simp add: rateLimited_def)

lemma gamepassDetails_admitted:
  "fst (checkRateLimit m (req_ip req) now) \<Longrightarrow>
   gamepassDetails up now m req =
     fetch up (snd (checkRateLimit m (req_ip req) now))
       \<lparr>url = ''https://apis.roblox.com/game-passes/v1/game-passes/''
                @ toString (req_params req ''id'') @ ''/details'',
        params = [],
        headers = [(''User-Agent'', ''RobloxGamepassProxy/1.0'')]\<rparr>
       ''Error fetching gamepass details:''
       ''Failed to fetch gamepass details''"
  by (simp add: gamepassDetails_def case_decision)

lemma userInventory_admitted:
  "fst (checkRateLimit m (req_ip req) now) \<Longrightarrow>
   userInventory up now m req =
     fetch up (snd (checkRateLimit m (req_ip req) now))
       \<lparr>url = ''https://inventory.roblox.com/v1/users/''
                @ toString (req_params req ''userId'') @ ''/assets/collectibles'',
        params =
          [(''assetType'', Str ''GamePass''),
           (''limit'', Num (math_min (or_number (parseInt (req_query req ''limit'')) (Fin 50)) (Fin 100))),
           (''cursor'', Str (or_string (req_query req ''cursor'') []))],
        headers = [(''User-Agent'', ''RobloxGamepassProxy/1.0'')]\<rparr>
       ''Error fetching user inventory:''
       ''Failed to fetch user inventory''"
  by (simp add: userInventory_def case_decision Let_def)

lemma creatorGamepasses_admitted:
  "fst (checkRateLimit m (req_ip req) now) \<Longrightarrow>
   creatorGamepasses up now m req =
     fetch up (snd (checkRateLimit m (req_ip req) now))
       \<lparr>url = ''https://apis.roblox.com/toolbox-service/v1/creations/get-user-creations'',
        params =
          [(''userId'', valueOf (req_params req ''userId'')),
           (''assetType'', Num (Fin 34)),
           (''limit'', Num (math_min (or_number (parseInt (req_query req ''limit'')) (Fin 50)) (Fin 100))),
           (''cursor'', Str (or_string (req_query req ''cursor'') [])),
           (''isArchived'', Bool False)],
        headers = [(''User-Agent'', ''RobloxGamepassProxy/1.0'')]\<rparr>
       ''Error fetching creator gamepasses:''
       ''Failed to fetch creator gamepasses''"
  by (simp add: creatorGamepasses_def case_decision Let_def)

lemma failed_fetch_reply:
  assumes "out = fetch up m' call0 logText category \<or> out = rateLimited m"
    and "calls out = [call]"
    and "up call = Rejected e"
  shows "reply out =
     \<lparr>res_status = error_status e,
      res_body = JObj [(''error'', JStr category), (''message'', JStr (err_message e))]\<rparr>"
proof -
  from assms(1,2) have out: "out = fetch up m' call0 logText category"
    by (auto simp: calls_rateLimited)
  with assms(2) have "call0 = call"
    by (simp add: calls_fetch)
  with out assms(3) show ?thesis
    by (simp add: reply_fetch_rejected)
qed

lemma forwarded_limit_userInventory:
  "fst (checkRateLimit m (req_ip req) now) \<Longrightarrow>
   forwarded (userInventory up now m req) ''limit'' =
     Some (Num (math_min (or_number (parseInt (req_query req ''limit'')) (Fin 50)) (Fin 100)))"
  by (simp add: userInventory_admitted forwarded_def calls_fetch)

lemma forwarded_limit_creatorGamepasses:
  "fst (checkRateLimit m (req_ip req) now) \<Longrightarrow>
   forwarded (creatorGamepasses up now m req) ''limit'' =
     Some (Num (math_min (or_number (parseInt (req_query req ''limit'')) (Fin 50)) (Fin 100)))"
  by (simp add: creatorGamepasses_admitted forwarded_def calls_fetch)

lemma forwarded_limit_serve:
  assumes "r = UserInventory \<or> r = CreatorGamepasses"
    and "fst (checkRateLimit m (req_ip req) now)"
  shows "forwarded (serve r up now m req) ''limit'' =
     Some (Num (math_min (or_number (parseInt (req_query req ''limit'')) (Fin 50)) (Fin 100)))"
  using assms
  by (auto simp: forwarded_limit_userInventory forwarded_limit_creatorGamepasses)

lemma admitted_empty: "fst (checkRateLimit Map.empty ip now)"
  by (simp add: checkRateLimit_def RATE_LIMIT_def)

text \<open>An admitted request to a proxy route is one fetch, with the category of the route.\<close>

lemma serve_admitted:
  assumes "r \<noteq> Root" and "fst (checkRateLimit m (req_ip req) now)"
  shows "\<exists>call0 logText. serve r up now m req =
     fetch up (snd (checkRateLimit m (req_ip req) now)) call0 logText
       (case r of
          Root \<Rightarrow> []
        | GamepassDetails \<Rightarrow> ''Failed to fetch gamepass details''
        | UserInventory \<Rightarrow> ''Failed to fetch user inventory''
        | CreatorGamepasses \<Rightarrow> ''Failed to fetch creator gamepasses'')"
proof (cases r)
  case Root
  with assms(1) show ?thesis by simp
next
  case GamepassDetails
  show ?thesis
    unfolding GamepassDetails using gamepassDetails_admitted [OF assms(2), of up] by auto
next
  case UserInventory
  show ?thesis
    unfolding UserInventory using userInventory_admitted [OF assms(2), of up] by auto
next
  case CreatorGamepasses
  show ?thesis
    unfolding CreatorGamepasses using creatorGamepasses_admitted [OF assms(2), of up] by auto
qed

text \<open>What Express sends for an answer whose status is not 2xx.\<close>

lemma send_not_2xx:
  assumes "\<not> (200 \<le> s \<and> s < 300)"
  shows "send fresh \<lparr>res_status = s, res_body = b\<rparr> =
     \<lparr>w_status = s,
      w_body = (if s = 304 \<or> (100 \<le> s \<and> s \<le> 199) then None else Some b)\<rparr>"
  using assms by (auto simp: send_def Let_def)

lemma send_200:
  "send fresh \<lparr>res_status = 200, res_body = b\<rparr> =
     (if fresh b then \<lparr>w_status = 304, w_body = None\<rparr>
      else \<lparr>w_status = 200, w_body = Some b\<rparr>)"
  by (simp add: send_def Let_def)

lemma app_accepted:
  "in_body i = Accepted \<Longrightarrow>
   app up now m i =
     \<lparr>d_counts = counts (serve (in_route i) up now m (in_request i)),
      d_sent = send (in_fresh i) (reply (serve (in_route i) up now m (in_request i))),
      d_calls = calls (serve (in_route i) up now m (in_request i)),
      d_logged = logged (serve (in_route i) up now m (in_request i))\<rparr>"
  by (simp add: app_def Let_def)

lemma app_refused:
  "in_body i = Refused err \<Longrightarrow>
   app up now m i =
     \<lparr>d_counts = m,
      d_sent = \<lparr>w_status = 500,
                w_body = Some (JObj [(''error'', JStr ''Internal server error''),
                                     (''message'', JStr (thrown_message err))])\<rparr>,
      d_calls = [],
      d_logged = [[thrown_stack err]]\<rparr>"
  by (simp add: app_def Let_def errorHandler_def res_status_json_def send_not_2xx)

section \<open>Claims about the handlers\<close>

text \<open>
  Claim C5: on each of the three proxy routes, a request of a client that the rate limiter
  rejects is answered with status 429 and the body \<^verbatim>\<open>{"error": "Rate limit exceeded"}\<close>;
  no upstream call is made, nothing is logged and the map of the rate limiter is as it was.
\<close>

theorem rejected_request:
  assumes "\<not> fst (checkRateLimit m (req_ip req) now)"
    and "r \<noteq> Root"
  shows "serve r up now m req =
     \<lparr>counts = m,
      reply = \<lparr>res_status = 429, res_body = JObj [(''error'', JStr ''Rate limit exceeded'')]\<rparr>,
      calls = [],
      logged = []\<rparr>"
proof -
  have "serve r up now m req = rateLimited m"
    using assms
    by (cases r)
      (simp_all add: gamepassDetails_rejected userInventory_rejected creatorGamepasses_rejected)
  then show ?thesis
    by (simp add: rateLimited_def res_status_json_def)
qed

theorem rejected_request_witness:
  "\<not> fst (checkRateLimit (Map.empty(''10.0.0.1'' \<mapsto> replicate 100 0)) ''10.0.0.1'' 0) \<and>
   map (\<lambda>r. res_status (reply (serve r (\<lambda>call. Resolved JNull) 0
          (Map.empty(''10.0.0.1'' \<mapsto> replicate 100 0))
          \<lparr>req_ip = ''10.0.0.1'', req_params = Map.empty, req_query = Map.empty\<rparr>)))
     [GamepassDetails, UserInventory, CreatorGamepasses] = [429, 429, 429] \<and>
   map (\<lambda>r. calls (serve r (\<lambda>call. Resolved JNull) 0
          (Map.empty(''10.0.0.1'' \<mapsto> replicate 100 0))
          \<lparr>req_ip = ''10.0.0.1'', req_params = Map.empty, req_query = Map.empty\<rparr>))
     [GamepassDetails, UserInventory, CreatorGamepasses] = [[], [], []]"
proof -
  let ?m = "Map.empty(''10.0.0.1'' \<mapsto> replicate 100 (0::int))"
  let ?req = "\<lparr>req_ip = ''10.0.0.1'', req_params = Map.empty, req_query = Map.empty\<rparr>"
  have rej: "\<not> fst (checkRateLimit ?m (req_ip ?req) 0)"
    by (simp add: checkRateLimit_def RATE_WINDOW_def RATE_LIMIT_def)
  show ?thesis
    using rej
      rejected_request [OF rej, of GamepassDetails "\<lambda>call. Resolved JNull"]
      rejected_request [OF rej, of UserInventory "\<lambda>call. Resolved JNull"]
      rejected_request [OF rej, of CreatorGamepasses "\<lambda>call. Resolved JNull"]
    by simp
qed

text \<open>
  Claim C6 says that the response to a failed upstream call carries the JSON object with
  the category and the message. When the upstream answers 304, the handler gives that
  status and the object to Express, and Express sends a response with status 304 and an
  empty body.
\<close>

theorem upstream_304_counterexample:
  "d_sent (app
      (\<lambda>call. Rejected \<lparr>err_status = Some 304, err_message = ''Request failed with status code 304''\<rparr>)
      0 Map.empty
      \<lparr>in_route = GamepassDetails,
       in_request = \<lparr>req_ip = ''10.0.0.1'', req_params = [''id'' \<mapsto> ''123''], req_query = Map.empty\<rparr>,
       in_body = Accepted,
       in_fresh = (\<lambda>data. False)\<rparr>) =
     \<lparr>w_status = 304, w_body = None\<rparr>"
  by (simp add: app_def Let_def gamepassDetails_admitted admitted_empty fetch_def
      res_status_json_def error_status_def send_def)

text \<open>
  Claim C6, amended: an admitted request to one of the three proxy routes makes exactly one
  upstream call. When that call fails with an error \<open>e\<close>, the response has the status of
  \<open>e\<close> when the upstream gave one (a status code of three digits that is not 2xx, axios
  resolving those) and 500 when there is none; its body is the JSON object with the
  category text of the route under \<^verbatim>\<open>error\<close> and the message of \<open>e\<close> under
  \<^verbatim>\<open>message\<close>, except that the body is empty with status 304 (and with an interim
  status 1xx, which no upstream gives as its answer).
\<close>

theorem upstream_failure:
  assumes "in_route i \<noteq> Root"
    and "in_body i = Accepted"
    and "fst (checkRateLimit m (req_ip (in_request i)) now)"
  shows "length (d_calls (app up now m i)) = 1 \<and>
     (d_calls (app up now m i) = [call] \<and> up call = Rejected e \<and>
      (err_status e = None \<or>
       (\<exists>s. err_status e = Some s \<and> 100 \<le> s \<and> s \<le> 999 \<and> \<not> (200 \<le> s \<and> s < 300))) \<longrightarrow>
        d_sent (app up now m i) =
          \<lparr>w_status = (case err_status e of None \<Rightarrow> 500 | Some s \<Rightarrow> s),
           w_body =
             (if err_status e = Some 304 \<or> (\<exists>s. err_status e = Some s \<and> s \<le> 199) then None
              else Some (JObj
                [(''error'', JStr
                    (case in_route i of
                       Root \<Rightarrow> []
                     | GamepassDetails \<Rightarrow> ''Failed to fetch gamepass details''
                     | UserInventory \<Rightarrow> ''Failed to fetch user inventory''
                     | CreatorGamepasses \<Rightarrow> ''Failed to fetch creator gamepasses'')),
                 (''message'', JStr (err_message e))]))\<rparr>)"
proof -
  let ?out = "serve (in_route i) up now m (in_request i)"
  let ?category = "case in_route i of
       Root \<Rightarrow> []
     | GamepassDetails \<Rightarrow> ''Failed to fetch gamepass details''
     | UserInventory \<Rightarrow> ''Failed to fetch user inventory''
     | CreatorGamepasses \<Rightarrow> ''Failed to fetch creator gamepasses''"
  from serve_admitted [OF assms(1,3)] obtain call0 logText where
    out: "?out = fetch up (snd (checkRateLimit m (req_ip (in_request i)) now)) call0 logText ?category"
    by blast
  have made: "d_calls (app up now m i) = [call0]"
    by (simp add: app_accepted [OF assms(2)] out calls_fetch)
  show ?thesis
  proof (intro conjI impI)
    show "length (d_calls (app up now m i)) = 1"
      by (simp add: made)
  next
    assume h: "d_calls (app up now m i) = [call] \<and> up call = Rejected e \<and>
      (err_status e = None \<or>
       (\<exists>s. err_status e = Some s \<and> 100 \<le> s \<and> s \<le> 999 \<and> \<not> (200 \<le> s \<and> s < 300)))"
    with made have failed: "up call0 = Rejected e" by simp
    have answer: "reply ?out =
        \<lparr>res_status = error_status e,
         res_body = JObj [(''error'', JStr ?category), (''message'', JStr (err_message e))]\<rparr>"
      unfolding out using failed by (rule reply_fetch_rejected)
    from h have status: "error_status e = (case err_status e of None \<Rightarrow> 500 | Some s \<Rightarrow> s)"
      and not_2xx: "\<not> (200 \<le> error_status e \<and> error_status e < 300)"
      and empty: "error_status e = 304 \<or> (100 \<le> error_status e \<and> error_status e \<le> 199)
        \<longleftrightarrow> err_status e = Some 304 \<or> (\<exists>s. err_status e = Some s \<and> s \<le> 199)"
      by (auto simp: error_status_def)
    have "d_sent (app up now m i) = send (in_fresh i) (reply ?out)"
      by (simp add: app_accepted [OF assms(2)])
    also have "\<dots> = \<lparr>w_status = error_status e,
         w_body = (if error_status e = 304 \<or> (100 \<le> error_status e \<and> error_status e \<le> 199)
                   then None
                   else Some (JObj [(''error'', JStr ?category), (''message'', JStr (err_message e))]))\<rparr>"
      unfolding answer using not_2xx by (rule send_not_2xx)
    finally show "d_sent (app up now m i) =
          \<lparr>w_status = (case err_status e of None \<Rightarrow> 500 | Some s \<Rightarrow> s),
           w_body =
             (if err_status e = Some 304 \<or> (\<exists>s. err_status e = Some s \<and> s \<le> 199) then None
              else Some (JObj
                [(''error'', JStr ?category), (''message'', JStr (err_message e))]))\<rparr>"
      by (simp only: status [symmetric] empty)
  qed
qed

theorem upstream_failure_witness:
  "d_sent (app
      (\<lambda>call. Rejected \<lparr>err_status = Some 404, err_message = ''Request failed with status code 404''\<rparr>)
      0 Map.empty
      \<lparr>in_route = GamepassDetails,
       in_request = \<lparr>req_ip = ''10.0.0.1'', req_params = [''id'' \<mapsto> ''123''], req_query = Map.empty\<rparr>,
       in_body = Accepted, in_fresh = (\<lambda>data. False)\<rparr>) =
     \<lparr>w_status = 404,
      w_body = Some (JObj [(''error'', JStr ''Failed to fetch gamepass details''),
                           (''message'', JStr ''Request failed with status code 404'')])\<rparr> \<and>
   d_sent (app
      (\<lambda>call. Rejected \<lparr>err_status = Some 503, err_message = ''Request failed with status code 503''\<rparr>)
      0 Map.empty
      \<lparr>in_route = UserInventory,
       in_request = \<lparr>req_ip = ''10.0.0.1'', req_params = [''userId'' \<mapsto> ''999''], req_query = Map.empty\<rparr>,
       in_body = Accepted, in_fresh = (\<lambda>data. False)\<rparr>) =
     \<lparr>w_status = 503,
      w_body = Some (JObj [(''error'', JStr ''Failed to fetch user inventory''),
                           (''message'', JStr ''Request failed with status code 503'')])\<rparr> \<and>
   d_sent (app
      (\<lambda>call. Rejected \<lparr>err_status = None, err_message = ''Network Error''\<rparr>)
      0 Map.empty
      \<lparr>in_route = CreatorGamepasses,
       in_request = \<lparr>req_ip = ''10.0.0.1'', req_params = [''userId'' \<mapsto> ''999''], req_query = Map.empty\<rparr>,
       in_body = Accepted, in_fresh = (\<lambda>data. False)\<rparr>) =
     \<lparr>w_status = 500,
      w_body = Some (JObj [(''error'', JStr ''Failed to fetch creator gamepasses''),
                           (''message'', JStr ''Network Error'')])\<rparr>"
proof -
  let ?e1 = "\<lparr>err_status = Some 404, err_message = ''Request failed with status code 404''\<rparr>"
  let ?e2 = "\<lparr>err_status = Some 503, err_message = ''Request failed with status code 503''\<rparr>"
  let ?e3 = "\<lparr>err_status = None, err_message = ''Network Error''\<rparr>"
  let ?i1 = "\<lparr>in_route = GamepassDetails,
       in_request = \<lparr>req_ip = ''10.0.0.1'', req_params = [''id'' \<mapsto> ''123''], req_query = Map.empty\<rparr>,
       in_body = Accepted, in_fresh = (\<lambda>data. False)\<rparr>"
  let ?i2 = "\<lparr>in_route = UserInventory,
       in_request = \<lparr>req_ip = ''10.0.0.1'', req_params = [''userId'' \<mapsto> ''999''], req_query = Map.empty\<rparr>,
       in_body = Accepted, in_fresh = (\<lambda>data. False)\<rparr>"
  let ?i3 = "\<lparr>in_route = CreatorGamepasses,
       in_request = \<lparr>req_ip = ''10.0.0.1'', req_params = [''userId'' \<mapsto> ''999''], req_query = Map.empty\<rparr>,
       in_body = Accepted, in_fresh = (\<lambda>data. False)\<rparr>"
  have w1: "length (d_calls (app (\<lambda>call. Rejected ?e1) 0 Map.empty ?i1)) = 1 \<and>
     (d_calls (app (\<lambda>call. Rejected ?e1) 0 Map.empty ?i1) = [call] \<and>
       (\<lambda>call. Rejected ?e1) call = Rejected ?e1 \<and>
      (err_status ?e1 = None \<or>
       (\<exists>s. err_status ?e1 = Some s \<and> 100 \<le> s \<and> s \<le> 999 \<and> \<not> (200 \<le> s \<and> s < 300))) \<longrightarrow>
        d_sent (app (\<lambda>call. Rejected ?e1) 0 Map.empty ?i1) =
          \<lparr>w_status = (case err_status ?e1 of None \<Rightarrow> 500 | Some s \<Rightarrow> s),
           w_body =
             (if err_status ?e1 = Some 304 \<or> (\<exists>s. err_status ?e1 = Some s \<and> s \<le> 199) then None
              else Some (JObj
                [(''error'', JStr
                    (case in_route ?i1 of
                       Root \<Rightarrow> []
                     | GamepassDetails \<Rightarrow> ''Failed to fetch gamepass details''
                     | UserInventory \<Rightarrow> ''Failed to fetch user inventory''
                     | CreatorGamepasses \<Rightarrow> ''Failed to fetch creator gamepasses'')),
                 (''message'', JStr (err_message ?e1))]))\<rparr>)" for call
    by (rule upstream_failure) (simp_all add: admitted_empty)
  have w2: "length (d_calls (app (\<lambda>call. Rejected ?e2) 0 Map.empty ?i2)) = 1 \<and>
     (d_calls (app (\<lambda>call. Rejected ?e2) 0 Map.empty ?i2) = [call] \<and>
       (\<lambda>call. Rejected ?e2) call = Rejected ?e2 \<and>
      (err_status ?e2 = None \<or>
       (\<exists>s. err_status ?e2 = Some s \<and> 100 \<le> s \<and> s \<le> 999 \<and> \<not> (200 \<le> s \<and> s < 300))) \<longrightarrow>
        d_sent (app (\<lambda>call. Rejected ?e2) 0 Map.empty ?i2) =
          \<lparr>w_status = (case err_status ?e2 of None \<Rightarrow> 500 | Some s \<Rightarrow> s),
           w_body =
             (if err_status ?e2 = Some 304 \<or> (\<exists>s. err_status ?e2 = Some s \<and> s \<le> 199) then None
              else Some (JObj
                [(''error'', JStr
                    (case in_route ?i2 of
                       Root \<Rightarrow> []
                     | GamepassDetails \<Rightarrow> ''Failed to fetch gamepass details''
                     | UserInventory \<Rightarrow> ''Failed to fetch user inventory''
                     | CreatorGamepasses \<Rightarrow> ''Failed to fetch creator gamepasses'')),
                 (''message'', JStr (err_message ?e2))]))\<rparr>)" for call
    by (rule upstream_failure) (simp_all add: admitted_empty)
  have w3: "length (d_calls (app (\<lambda>call. Rejected ?e3) 0 Map.empty ?i3)) = 1 \<and>
     (d_calls (app (\<lambda>call. Rejected ?e3) 0 Map.empty ?i3) = [call] \<and>
       (\<lambda>call. Rejected ?e3) call = Rejected ?e3 \<and>
      (err_status ?e3 = None \<or>
       (\<exists>s. err_status ?e3 = Some s \<and> 100 \<le> s \<and> s \<le> 999 \<and> \<not> (200 \<le> s \<and> s < 300))) \<longrightarrow>
        d_sent (app (\<lambda>call. Rejected ?e3) 0 Map.empty ?i3) =
          \<lparr>w_status = (case err_status ?e3 of None \<Rightarrow> 500 | Some s \<Rightarrow> s),
           w_body =
             (if err_status ?e3 = Some 304 \<or> (\<exists>s. err_status ?e3 = Some s \<and> s \<le> 199) then None
              else Some (JObj
                [(''error'', JStr
                    (case in_route ?i3 of
                       Root \<Rightarrow> []
                     | GamepassDetails \<Rightarrow> ''Failed to fetch gamepass details''
                     | UserInventory \<Rightarrow> ''Failed to fetch user inventory''
                     | CreatorGamepasses \<Rightarrow> ''Failed to fetch creator gamepasses'')),
                 (''message'', JStr (err_message ?e3))]))\<rparr>)" for call
    by (rule upstream_failure) (simp_all add: admitted_empty)
  from w1 obtain c1 where c1: "d_calls (app (\<lambda>call. Rejected ?e1) 0 Map.empty ?i1) = [c1]"
    by (auto simp: length_Suc_conv)
  from w2 obtain c2 where c2: "d_calls (app (\<lambda>call. Rejected ?e2) 0 Map.empty ?i2) = [c2]"
    by (auto simp: length_Suc_conv)
  from w3 obtain c3 where c3: "d_calls (app (\<lambda>call. Rejected ?e3) 0 Map.empty ?i3) = [c3]"
    by (auto simp: length_Suc_conv)
  show ?thesis
    using w1 [of c1] w2 [of c2] w3 [of c3] c1 c2 c3 by simp
qed

text \<open>
  Claim C7 says that a non-numeric \<^verbatim>\<open>limit\<close> yields 50 and a numeric one above 100 is
  capped. \<^verbatim>\<open>parseInt\<close> reads the longest leading integer and drops what follows: for
  \<^verbatim>\<open>limit=12abc\<close>, which is not a number, the limit sent upstream is 12, and for
  \<^verbatim>\<open>limit=1e3\<close>, the number 1000, it is 1.
\<close>

theorem limit_text_counterexample:
  "forwarded (serve UserInventory (\<lambda>call. Resolved JNull) 0 Map.empty
      \<lparr>req_ip = ''10.0.0.1'', req_params = [''userId'' \<mapsto> ''999''],
       req_query = [''limit'' \<mapsto> ''12abc'']\<rparr>) ''limit'' = Some (Num (Fin 12)) \<and>
   forwarded (serve CreatorGamepasses (\<lambda>call. Resolved JNull) 0 Map.empty
      \<lparr>req_ip = ''10.0.0.1'', req_params = [''userId'' \<mapsto> ''999''],
       req_query = [''limit'' \<mapsto> ''1e3'']\<rparr>) ''limit'' = Some (Num (Fin 1))"
  by (simp add: forwarded_limit_userInventory forwarded_limit_creatorGamepasses admitted_empty
      parseInt_eval toNumber_exact or_number_def)

text \<open>
  Claim C7, amended: for an admitted request to the inventory or the creator route, the
  limit sent upstream is found from the text of the \<^verbatim>\<open>limit\<close> parameter as \<^verbatim>\<open>parseInt\<close>
  reads it. Let the text be white space, an optional plus sign, a decimal numeral \<open>ds\<close>,
  and then nothing or a rest that starts with no digit, which is ignored. When the value
  of \<open>ds\<close> is above 100 (\<^verbatim>\<open>500\<close>, \<^verbatim>\<open>500abc\<close>) the limit is 100; when it is from 1 to
  100 (\<^verbatim>\<open>12abc\<close>, \<^verbatim>\<open>1e3\<close>) the limit is that value. When the text has no digit after
  the white space and the sign (\<^verbatim>\<open>abc\<close>, the empty text) the limit is 50, and so it is
  when the parameter is absent.
\<close>

theorem limit_cap_and_default:
  assumes "r = UserInventory \<or> r = CreatorGamepasses"
    and "fst (checkRateLimit m (req_ip req) now)"
    and "\<forall>c\<in>set ws. isStrWhiteSpaceChar c"
    and "sg = [] \<or> sg = ''+''"
    and "rest = [] \<or> \<not> isRadixDigit 10 (hd rest)"
  shows
    "(req_query req ''limit'' = Some (ws @ sg @ ds @ rest) \<and>
      ds \<noteq> [] \<and> (\<forall>c\<in>set ds. isRadixDigit 10 c) \<and> 100 < digitsValue 10 ds \<longrightarrow>
        forwarded (serve r up now m req) ''limit'' = Some (Num (Fin 100))) \<and>
     (req_query req ''limit'' = Some (ws @ sg @ ds @ rest) \<and>
      ds \<noteq> [] \<and> (\<forall>c\<in>set ds. isRadixDigit 10 c) \<and>
      0 < digitsValue 10 ds \<and> digitsValue 10 ds \<le> 100 \<longrightarrow>
        forwarded (serve r up now m req) ''limit'' = Some (Num (Fin (int (digitsValue 10 ds))))) \<and>
     (req_query req ''limit'' = Some (ws @ sg @ rest) \<and>
      (sg = [] \<longrightarrow> rest = [] \<or>
         (\<not> isStrWhiteSpaceChar (hd rest) \<and> hd rest \<noteq> CHR ''+'' \<and> hd rest \<noteq> CHR ''-'')) \<longrightarrow>
        forwarded (serve r up now m req) ''limit'' = Some (Num (Fin 50))) \<and>
     (req_query req ''limit'' = None \<longrightarrow>
        forwarded (serve r up now m req) ''limit'' = Some (Num (Fin 50)))"
proof -
  note sent = forwarded_limit_serve [OF assms(1,2), of up]
  have sg: "sg = [] \<or> sg = ''+'' \<or> sg = ''-''" and plus: "sg \<noteq> ''-''"
    using assms(4) by auto
  have numeral: "parseInt_str (ws @ sg @ ds @ rest) = toNumber 1 (digitsValue 10 ds)"
    if "ds \<noteq> []" and "\<forall>c\<in>set ds. isRadixDigit 10 c" and "0 < digitsValue 10 ds"
  proof -
    from that(3) have "ds \<noteq> ''0''"
      by (auto simp: digitsValue_zero)
    then have "ds = ''0'' \<longrightarrow> rest = [] \<or> (hd rest \<noteq> CHR ''x'' \<and> hd rest \<noteq> CHR ''X'')"
      by simp
    from parseInt_str_decimal [OF assms(3) sg that(1,2) assms(5) this] plus
    show ?thesis by simp
  qed
  show ?thesis
  proof (intro conjI impI)
    assume h: "req_query req ''limit'' = Some (ws @ sg @ ds @ rest) \<and>
      ds \<noteq> [] \<and> (\<forall>c\<in>set ds. isRadixDigit 10 c) \<and> 100 < digitsValue 10 ds"
    then have "parseInt (req_query req ''limit'') = toNumber 1 (digitsValue 10 ds)"
      by (simp add: parseInt_present numeral)
    with h show "forwarded (serve r up now m req) ''limit'' = Some (Num (Fin 100))"
      by (simp add: sent limit_above_100)
  next
    assume h: "req_query req ''limit'' = Some (ws @ sg @ ds @ rest) \<and>
      ds \<noteq> [] \<and> (\<forall>c\<in>set ds. isRadixDigit 10 c) \<and>
      0 < digitsValue 10 ds \<and> digitsValue 10 ds \<le> 100"
    then have "parseInt (req_query req ''limit'') = toNumber 1 (digitsValue 10 ds)"
      by (simp add: parseInt_present numeral)
    with h show "forwarded (serve r up now m req) ''limit'' =
        Some (Num (Fin (int (digitsValue 10 ds))))"
      by (simp add: sent limit_small)
  next
    assume h: "req_query req ''limit'' = Some (ws @ sg @ rest) \<and>
      (sg = [] \<longrightarrow> rest = [] \<or>
         (\<not> isStrWhiteSpaceChar (hd rest) \<and> hd rest \<noteq> CHR ''+'' \<and> hd rest \<noteq> CHR ''-''))"
    then have "parseInt_str (ws @ sg @ rest) = NaN"
      by (intro parseInt_str_no_digit assms(3,5) sg) simp
    with h show "forwarded (serve r up now m req) ''limit'' = Some (Num (Fin 50))"
      by (simp add: sent parseInt_present limit_NaN)
  next
    assume "req_query req ''limit'' = None"
    then show "forwarded (serve r up now m req) ''limit'' = Some (Num (Fin 50))"
      by (simp add: sent parseInt_absent limit_NaN)
  qed
qed

theorem limit_cap_and_default_witness:
  "forwarded (serve UserInventory (\<lambda>call. Resolved JNull) 0 Map.empty
      \<lparr>req_ip = ''10.0.0.1'', req_params = [''userId'' \<mapsto> ''999''],
       req_query = [''limit'' \<mapsto> ''500'']\<rparr>) ''limit'' = Some (Num (Fin 100)) \<and>
   forwarded (serve CreatorGamepasses (\<lambda>call. Resolved JNull) 0 Map.empty
      \<lparr>req_ip = ''10.0.0.1'', req_params = [''userId'' \<mapsto> ''999''],
       req_query = [''limit'' \<mapsto> '' +500abc'']\<rparr>) ''limit'' = Some (Num (Fin 100)) \<and>
   forwarded (serve UserInventory (\<lambda>call. Resolved JNull) 0 Map.empty
      \<lparr>req_ip = ''10.0.0.1'', req_params = [''userId'' \<mapsto> ''999''],
       req_query = [''limit'' \<mapsto> ''10'']\<rparr>) ''limit'' = Some (Num (Fin 10)) \<and>
   forwarded (serve CreatorGamepasses (\<lambda>call. Resolved JNull) 0 Map.empty
      \<lparr>req_ip = ''10.0.0.1'', req_params = [''userId'' \<mapsto> ''999''],
       req_query = [''limit'' \<mapsto> ''abc'']\<rparr>) ''limit'' = Some (Num (Fin 50)) \<and>
   forwarded (serve UserInventory (\<lambda>call. Resolved JNull) 0 Map.empty
      \<lparr>req_ip = ''10.0.0.1'', req_params = [''userId'' \<mapsto> ''999''],
       req_query = Map.empty\<rparr>) ''limit'' = Some (Num (Fin 50))"
proof -
  note digits = isRadixDigit_10 isStrWhiteSpaceChar_def digitsValue_def digitValue_def
  have a: "forwarded (serve UserInventory (\<lambda>call. Resolved JNull) 0 Map.empty
      \<lparr>req_ip = ''10.0.0.1'', req_params = [''userId'' \<mapsto> ''999''],
       req_query = [''limit'' \<mapsto> ''500'']\<rparr>) ''limit'' = Some (Num (Fin 100))"
    using limit_cap_and_default [of UserInventory Map.empty
        "\<lparr>req_ip = ''10.0.0.1'', req_params = [''userId'' \<mapsto> ''999''],
          req_query = [''limit'' \<mapsto> ''500'']\<rparr>" 0 "[]" "[]" "[]" "''500''"
        "\<lambda>call. Resolved JNull"]
    by (simp add: admitted_empty digits)
  have b: "forwarded (serve CreatorGamepasses (\<lambda>call. Resolved JNull) 0 Map.empty
      \<lparr>req_ip = ''10.0.0.1'', req_params = [''userId'' \<mapsto> ''999''],
       req_query = [''limit'' \<mapsto> '' +500abc'']\<rparr>) ''limit'' = Some (Num (Fin 100))"
    using limit_cap_and_default [of CreatorGamepasses Map.empty
        "\<lparr>req_ip = ''10.0.0.1'', req_params = [''userId'' \<mapsto> ''999''],
          req_query = [''limit'' \<mapsto> '' +500abc'']\<rparr>" 0 "'' ''" "''+''" "''abc''" "''500''"
        "\<lambda>call. Resolved JNull"]
    by (simp add: admitted_empty digits)
  have c: "forwarded (serve UserInventory (\<lambda>call. Resolved JNull) 0 Map.empty
      \<lparr>req_ip = ''10.0.0.1'', req_params = [''userId'' \<mapsto> ''999''],
       req_query = [''limit'' \<mapsto> ''10'']\<rparr>) ''limit'' = Some (Num (Fin 10))"
    using limit_cap_and_default [of UserInventory Map.empty
        "\<lparr>req_ip = ''10.0.0.1'', req_params = [''userId'' \<mapsto> ''999''],
          req_query = [''limit'' \<mapsto> ''10'']\<rparr>" 0 "[]" "[]" "[]" "''10''"
        "\<lambda>call. Resolved JNull"]
    by (simp add: admitted_empty digits)
  have d: "forwarded (serve CreatorGamepasses (\<lambda>call. Resolved JNull) 0 Map.empty
      \<lparr>req_ip = ''10.0.0.1'', req_params = [''userId'' \<mapsto> ''999''],
       req_query = [''limit'' \<mapsto> ''abc'']\<rparr>) ''limit'' = Some (Num (Fin 50))"
    using limit_cap_and_default [of CreatorGamepasses Map.empty
        "\<lparr>req_ip = ''10.0.0.1'', req_params = [''userId'' \<mapsto> ''999''],
          req_query = [''limit'' \<mapsto> ''abc'']\<rparr>" 0 "[]" "[]" "''abc''" "[]"
        "\<lambda>call. Resolved JNull"]
    by (simp add: admitted_empty digits)
  have e: "forwarded (serve UserInventory (\<lambda>call. Resolved JNull) 0 Map.empty
      \<lparr>req_ip = ''10.0.0.1'', req_params = [''userId'' \<mapsto> ''999''],
       req_query = Map.empty\<rparr>) ''limit'' = Some (Num (Fin 50))"
    using limit_cap_and_default [of UserInventory Map.empty
        "\<lparr>req_ip = ''10.0.0.1'', req_params = [''userId'' \<mapsto> ''999''],
          req_query = Map.empty\<rparr>" 0 "[]" "[]" "[]" "[]"
        "\<lambda>call. Resolved JNull"]
    by (simp add: admitted_empty digits)
  from a b c d e show ?thesis by simp
qed

text \<open>
  Claim C8: the inventory handler does the same whatever the \<^verbatim>\<open>page\<close> parameter is, set
  to any text or absent; an admitted request makes one upstream call whose parameters are
  exactly \<^verbatim>\<open>assetType = 'GamePass'\<close>, the effective limit and the cursor (the empty string
  when absent), and a rejected one makes none.
\<close>

theorem inventory_outbound:
  "userInventory up now m (req\<lparr>req_query := (req_query req)(''page'' := p)\<rparr>) =
     userInventory up now m req \<and>
   (fst (checkRateLimit m (req_ip req) now) \<longrightarrow>
      map params (calls (userInventory up now m req)) =
        [[(''assetType'', Str ''GamePass''),
          (''limit'', Num (math_min (or_number (parseInt (req_query req ''limit'')) (Fin 50)) (Fin 100))),
          (''cursor'', Str (case req_query req ''cursor'' of None \<Rightarrow> [] | Some c \<Rightarrow> c))]]) \<and>
   (\<not> fst (checkRateLimit m (req_ip req) now) \<longrightarrow> calls (userInventory up now m req) = [])"
proof (intro conjI impI)
  show "userInventory up now m (req\<lparr>req_query := (req_query req)(''page'' := p)\<rparr>) =
     userInventory up now m req"
    by (simp add: userInventory_def case_decision Let_def)
next
  assume adm: "fst (checkRateLimit m (req_ip req) now)"
  have "or_string (req_query req ''cursor'') [] =
      (case req_query req ''cursor'' of None \<Rightarrow> [] | Some c \<Rightarrow> c)"
    by (simp add: or_string_def split: option.split)
  then show "map params (calls (userInventory up now m req)) =
        [[(''assetType'', Str ''GamePass''),
          (''limit'', Num (math_min (or_number (parseInt (req_query req ''limit'')) (Fin 50)) (Fin 100))),
          (''cursor'', Str (case req_query req ''cursor'' of None \<Rightarrow> [] | Some c \<Rightarrow> c))]]"
    by (simp add: userInventory_admitted [OF adm] calls_fetch)
next
  assume "\<not> fst (checkRateLimit m (req_ip req) now)"
  then show "calls (userInventory up now m req) = []"
    by (simp add: userInventory_rejected calls_rateLimited)
qed

theorem inventory_outbound_witness:
  "map params (calls (userInventory (\<lambda>call. Resolved JNull) 0 Map.empty
      \<lparr>req_ip = ''10.0.0.1'', req_params = [''userId'' \<mapsto> ''999''],
       req_query = [''cursor'' \<mapsto> ''abc123'', ''limit'' \<mapsto> ''10'', ''page'' \<mapsto> ''2'']\<rparr>)) =
     [[(''assetType'', Str ''GamePass''), (''limit'', Num (Fin 10)), (''cursor'', Str ''abc123'')]] \<and>
   calls (userInventory (\<lambda>call. Resolved JNull) 0
      (Map.empty(''10.0.0.1'' \<mapsto> replicate 100 0))
      \<lparr>req_ip = ''10.0.0.1'', req_params = [''userId'' \<mapsto> ''999''],
       req_query = [''cursor'' \<mapsto> ''abc123'', ''limit'' \<mapsto> ''10'']\<rparr>) = []"
proof -
  let ?req = "\<lparr>req_ip = ''10.0.0.1'', req_params = [''userId'' \<mapsto> ''999''],
       req_query = [''cursor'' \<mapsto> ''abc123'', ''limit'' \<mapsto> ''10'']\<rparr>"
  let ?full = "Map.empty(''10.0.0.1'' \<mapsto> replicate 100 (0::int))"
  have adm: "fst (checkRateLimit Map.empty (req_ip ?req) 0)"
    by (simp add: checkRateLimit_def RATE_LIMIT_def)
  have rej: "\<not> fst (checkRateLimit ?full (req_ip ?req) 0)"
    by (simp add: checkRateLimit_def RATE_WINDOW_def RATE_LIMIT_def)
  have lim: "parseInt (Some ''10'') = Fin 10"
    by (simp add: parseInt_eval toNumber_exact)
  show ?thesis
    using adm rej
      inventory_outbound [of "\<lambda>call. Resolved JNull" 0 Map.empty ?req "Some ''2''"]
      inventory_outbound [of "\<lambda>call. Resolved JNull" 0 ?full ?req None]
    by (simp add: lim or_number_def)
qed

text \<open>
  Claim C9 says that every request to \<^verbatim>\<open>GET /\<close> is answered with the descriptor. The
  handler gives the descriptor to \<^verbatim>\<open>res.json\<close> every time, but for a conditional GET
  whose validator matches it Express sends status 304 and an empty body.
\<close>

theorem health_check_counterexample:
  "d_sent (app (\<lambda>call. Resolved JNull) 0 Map.empty
      \<lparr>in_route = Root,
       in_request = \<lparr>req_ip = ''10.0.0.1'', req_params = Map.empty, req_query = Map.empty\<rparr>,
       in_body = Accepted,
       in_fresh = (\<lambda>data. True)\<rparr>) =
     \<lparr>w_status = 304, w_body = None\<rparr>"
  by (simp add: app_def Let_def healthCheck_def res_json_def send_def)

text \<open>
  Claim C9, amended: for a request to \<^verbatim>\<open>GET /\<close>, whatever the map of the rate limiter,
  the clock and the upstream are, the rate limiter is not invoked (its map stays as it is)
  and no upstream call is made. When the JSON middleware passes the request on, the handler
  gives the same static descriptor (status, message and the three routes) to \<^verbatim>\<open>res.json\<close>,
  and Express sends it with status 200, or sends 304 with an empty body when the request
  is a conditional GET whose validator matches the descriptor. When the middleware refuses
  the body, the error handler answers 500 with the message of the error.
\<close>

theorem health_check:
  assumes "in_route i = Root"
  shows "d_counts (app up now m i) = m \<and>
     d_calls (app up now m i) = [] \<and>
     reply (serve Root up now m (in_request i)) = \<lparr>res_status = 200, res_body = descriptor\<rparr> \<and>
     d_sent (app up now m i) =
       (case in_body i of
          Refused err \<Rightarrow>
            \<lparr>w_status = 500,
             w_body = Some (JObj [(''error'', JStr ''Internal server error''),
                                  (''message'', JStr (thrown_message err))])\<rparr>
        | Accepted \<Rightarrow>
            if in_fresh i descriptor then \<lparr>w_status = 304, w_body = None\<rparr>
            else \<lparr>w_status = 200, w_body = Some descriptor\<rparr>) \<and>
     descriptor = JObj
       [(''status'', JStr ''online''),
        (''message'', JStr ''Roblox Gamepass Proxy API''),
        (''endpoints'', JObj
           [(''gamepassDetails'', JStr ''/api/gamepasses/:id/details''),
            (''userInventory'', JStr ''/api/users/:userId/inventory/gamepasses''),
            (''creatorGamepasses'', JStr ''/api/users/:userId/gamepasses'')])]"
proof (cases "in_body i")
  case Accepted
  show ?thesis
    using assms
    by (simp add: app_accepted [OF Accepted] Accepted healthCheck_def res_json_def send_200
        descriptor_def)
next
  case (Refused err)
  show ?thesis
    using assms
    by (simp add: app_refused [OF Refused] Refused healthCheck_def res_json_def descriptor_def)
qed

theorem health_check_witness:
  "d_sent (app (\<lambda>call. Resolved JNull) 0 (Map.empty(''10.0.0.1'' \<mapsto> replicate 100 0))
      \<lparr>in_route = Root,
       in_request = \<lparr>req_ip = ''10.0.0.1'', req_params = Map.empty, req_query = Map.empty\<rparr>,
       in_body = Accepted,
       in_fresh = (\<lambda>data. False)\<rparr>) =
     \<lparr>w_status = 200, w_body = Some descriptor\<rparr> \<and>
   d_counts (app (\<lambda>call. Resolved JNull) 0 (Map.empty(''10.0.0.1'' \<mapsto> replicate 100 0))
      \<lparr>in_route = Root,
       in_request = \<lparr>req_ip = ''10.0.0.1'', req_params = Map.empty, req_query = Map.empty\<rparr>,
       in_body = Accepted,
       in_fresh = (\<lambda>data. False)\<rparr>) = Map.empty(''10.0.0.1'' \<mapsto> replicate 100 0) \<and>
   d_sent (app (\<lambda>call. Resolved JNull) 0 Map.empty
      \<lparr>in_route = Root,
       in_request = \<lparr>req_ip = ''10.0.0.1'', req_params = Map.empty, req_query = Map.empty\<rparr>,
       in_body = Refused \<lparr>thrown_stack = ''SyntaxError: Unexpected end of JSON input at parse'',
                         thrown_message = ''Unexpected end of JSON input''\<rparr>,
       in_fresh = (\<lambda>data. False)\<rparr>) =
     \<lparr>w_status = 500,
      w_body = Some (JObj [(''error'', JStr ''Internal server error''),
                           (''message'', JStr ''Unexpected end of JSON input'')])\<rparr>"
  using
    health_check [of "\<lparr>in_route = Root,
       in_request = \<lparr>req_ip = ''10.0.0.1'', req_params = Map.empty, req_query = Map.empty\<rparr>,
       in_body = Accepted,
       in_fresh = (\<lambda>data. False)\<rparr>" "\<lambda>call. Resolved JNull" 0
       "Map.empty(''10.0.0.1'' \<mapsto> replicate 100 0)"]
    health_check [of "\<lparr>in_route = Root,
       in_request = \<lparr>req_ip = ''10.0.0.1'', req_params = Map.empty, req_query = Map.empty\<rparr>,
       in_body = Refused \<lparr>thrown_stack = ''SyntaxError: Unexpected end of JSON input at parse'',
                         thrown_message = ''Unexpected end of JSON input''\<rparr>,
       in_fresh = (\<lambda>data. False)\<rparr>" "\<lambda>call. Resolved JNull" 0 Map.empty]
  by simp




end
